theory Spec2Isabelle
  imports Main "HOL-Library.Word"
begin

unbundle bit_operations_syntax

section \<open>Values and identifiers\<close>

text \<open>
  A dispatch identifier is a \<^verbatim>\<open>uuid.UUID\<close>: a 128-bit integer. The f-string of the
  routes formats it with \<^verbatim>\<open>UUID.__str__\<close>: the 32 lower-case hexadecimal digits of the
  integer, most significant first, grouped 8-4-4-4-12 with hyphens.
\<close>

type_synonym uuid = "128 word"

definition hex_char :: "nat \<Rightarrow> char" where
  "hex_char n = ''0123456789abcdef'' ! (n mod 16)"

definition hex32 :: "uuid \<Rightarrow> string" where
  "hex32 u = map (\<lambda>i. hex_char (unat (drop_bit (4 * i) u AND 15))) (rev [0..<32])"

definition uuid_str :: "uuid \<Rightarrow> string" where
  "uuid_str u =
     (let hex = hex32 u
      in take 8 hex @ ''-'' @ take 4 (drop 8 hex) @ ''-'' @ take 4 (drop 12 hex) @ ''-''
         @ take 4 (drop 16 hex) @ ''-'' @ drop 20 hex)"

text \<open>
  The values a pickle file decodes to, and Python's \<^verbatim>\<open>str\<close> on them. An object of a
  user class is carried with the text its \<^verbatim>\<open>__str__\<close> gives.
\<close>

datatype pyval = PyNone | PyBool bool | PyInt int | PyStr string | PyObj string

fun dec_nat :: "nat \<Rightarrow> string" where
  "dec_nat n = (if n < 10 then [hex_char n] else dec_nat (n div 10) @ [hex_char (n mod 10)])"

declare dec_nat.simps [simp del]

fun py_str :: "pyval \<Rightarrow> string" where
  "py_str PyNone = ''None''"
| "py_str (PyBool b) = (if b then ''True'' else ''False'')"
| "py_str (PyInt i) = (if i < 0 then ''-'' @ dec_nat (nat (- i)) else dec_nat (nat i))"
| "py_str (PyStr s) = s"
| "py_str (PyObj s) = s"

section \<open>Rows, responses and errors\<close>

text \<open>The row \<^verbatim>\<open>Lattices.get_lattices_id\<close> returns, with the columns the route reads.\<close>

record lattice_row =
  dispatch_id :: string
  status :: string
  total_electrons :: int
  total_electrons_completed :: int
  start_time :: int
  end_time :: "int option"
  directory :: string
  runtime :: int

text \<open>
  The row \<^verbatim>\<open>Lattices.get_lattices_id_storage_file\<close> returns; the route indexes it by
  column name (\<^verbatim>\<open>lattice_data["results_filename"]\<close>). The columns \<^verbatim>\<open>directory\<close>,
  \<^verbatim>\<open>executor\<close> and \<^verbatim>\<open>workflow_executor\<close> carry the prefix \<open>st_\<close> here, the first
  because the summary row has a column of that name too.
\<close>

record storage_row =
  st_directory :: string
  results_filename :: string
  inputs_filename :: string
  function_string_filename :: string
  st_executor :: string
  executor_data_filename :: string
  st_workflow_executor :: string
  workflow_executor_data_filename :: string
  error_filename :: string
  function_filename :: string
  transport_graph_filename :: string

record LatticeDetailResponse =
  r_dispatch_id :: string
  r_status :: string
  r_total_electrons :: int
  r_total_electrons_completed :: int
  r_started_at :: int
  r_ended_at :: "int option"
  r_directory :: string
  r_runtime :: int

datatype file_response =
  LatticeFileResponse (data: pyval)
| LatticeExecutorResponse (executor_name: string) (executor_details: pyval)
| LatticeWorkflowExecutorResponse (workflow_executor_name: string)
    (workflow_executor_details: pyval)

record error_detail =
  loc :: "string list"
  msg :: string
  type_key :: "string option"

datatype error =
  HTTPException (status_code: nat) (detail: "error_detail list")
| MissingFile
| DecodeError

section \<open>The backing store, the session and the file handler\<close>

text \<open>
  What a request reads and never changes: the two tables the data layer queries by
  dispatch id, the files on disk (path to raw contents) and the two decoders of the
  file handler.
\<close>

record env =
  lattices :: "uuid \<rightharpoonup> lattice_row"
  storage_files :: "uuid \<rightharpoonup> storage_row"
  files :: "string \<rightharpoonup> string"
  unpickle :: "string \<Rightarrow> pyval option"
  decode_text :: "string \<Rightarrow> string option"

text \<open>
  What a request changes: the number of sessions it holds open, and the calls made to
  the file handler (which reader, on which handler location, with which file name).
\<close>

datatype reader = read_text | read_pickle

record state =
  open_sessions :: nat
  reads :: "(reader \<times> string \<times> string) list"

text \<open>
  \<^verbatim>\<open>with Session(engine) as session: body\<close>: the session is opened, the body runs, and
  \<^verbatim>\<open>Session.__exit__\<close> closes the session however the body ends, by \<^verbatim>\<open>return\<close> or
  by an exception (\<open>Inl\<close>), which then propagates.
\<close>

definition with_Session :: "(state \<Rightarrow> (error + 'a) \<times> state) \<Rightarrow> state \<Rightarrow> (error + 'a) \<times> state" where
  "with_Session body s =
     (case body (s\<lparr>open_sessions := open_sessions s + 1\<rparr>) of
        (r, s') \<Rightarrow> (r, s'\<lparr>open_sessions := open_sessions s' - 1\<rparr>))"

text \<open>
  Modelled from the spec: \<^verbatim>\<open>covalent_ui.api.v1.utils.file_handle.FileHandler\<close> is not
  among the sources. Its two readers follow section 4.3: the file name is resolved
  against the handler's location, an absent file is \<open>MissingFile\<close>, contents the codec
  rejects are \<open>DecodeError\<close>, and the file is not changed. Each call is recorded.
\<close>

record FileHandler =
  location :: string

definition file_path :: "FileHandler \<Rightarrow> string \<Rightarrow> string" where
  "file_path handler path = location handler @ ''/'' @ path"

definition read_from :: "reader \<Rightarrow> (string \<Rightarrow> pyval option) \<Rightarrow> env \<Rightarrow> FileHandler \<Rightarrow> string
    \<Rightarrow> state \<Rightarrow> (error + pyval) \<times> state" where
  "read_from rd decode e handler path s =
     (let s' = s\<lparr>reads := reads s @ [(rd, location handler, path)]\<rparr>
      in case files e (file_path handler path) of
           None \<Rightarrow> (Inl MissingFile, s')
         | Some raw \<Rightarrow>
             (case decode raw of
                None \<Rightarrow> (Inl DecodeError, s')
              | Some v \<Rightarrow> (Inr v, s')))"

definition read_from_pickle :: "env \<Rightarrow> FileHandler \<Rightarrow> string \<Rightarrow> state \<Rightarrow> (error + pyval) \<times> state" where
  "read_from_pickle e = read_from read_pickle (unpickle e) e"

definition read_from_text :: "env \<Rightarrow> FileHandler \<Rightarrow> string \<Rightarrow> state \<Rightarrow> (error + pyval) \<times> state" where
  "read_from_text e = read_from read_text (\<lambda>raw. map_option PyStr (decode_text e raw)) e"

text \<open>A statement after a reader call runs only when the call returned.\<close>

definition returning :: "(error + pyval) \<times> state \<Rightarrow> (pyval \<Rightarrow> 'a) \<Rightarrow> (error + 'a) \<times> state" where
  "returning r f = (case r of (Inl err, s) \<Rightarrow> (Inl err, s) | (Inr v, s) \<Rightarrow> (Inr (f v), s))"

section \<open>The routes\<close>

definition not_found :: "uuid \<Rightarrow> error" where
  "not_found did =
     HTTPException 400
       [\<lparr>loc = [''path'', ''dispatch_id''],
         msg = ''Dispatch ID '' @ uuid_str did @ '' does not exist'',
         type_key = None\<rparr>]"

definition get_lattice_details :: "env \<Rightarrow> uuid \<Rightarrow> state \<Rightarrow> (error + LatticeDetailResponse) \<times> state" where
  "get_lattice_details e did =
     with_Session (\<lambda>s.
       case lattices e did of
         Some d \<Rightarrow>
           (Inr \<lparr>r_dispatch_id = dispatch_id d,
                 r_status = status d,
                 r_total_electrons = total_electrons d,
                 r_total_electrons_completed = total_electrons_completed d,
                 r_started_at = start_time d,
                 r_ended_at = end_time d,
                 r_directory = directory d,
                 r_runtime = runtime d\<rparr>, s)
       | None \<Rightarrow> (Inl (not_found did), s))"

definition get_lattice_files :: "env \<Rightarrow> uuid \<Rightarrow> string \<Rightarrow> state \<Rightarrow> (error + file_response) \<times> state" where
  "get_lattice_files e did name =
     with_Session (\<lambda>s.
       case storage_files e did of
         Some lattice_data \<Rightarrow>
           (let handler = \<lparr>location = st_directory lattice_data\<rparr>
            in if name = ''result'' then
                 returning (read_from_pickle e handler (results_filename lattice_data) s)
                   (\<lambda>response. LatticeFileResponse (PyStr (py_str response)))
               else if name = ''inputs'' then
                 returning (read_from_pickle e handler (inputs_filename lattice_data) s)
                   (\<lambda>response. LatticeFileResponse response)
               else if name = ''function_string'' then
                 returning (read_from_text e handler (function_string_filename lattice_data) s)
                   (\<lambda>response. LatticeFileResponse response)
               else if name = ''executor'' then
                 returning (read_from_pickle e handler (executor_data_filename lattice_data) s)
                   (\<lambda>executor_data.
                      LatticeExecutorResponse (st_executor lattice_data) executor_data)
               else if name = ''workflow_executor'' then
                 returning
                   (read_from_pickle e handler (workflow_executor_data_filename lattice_data) s)
                   (\<lambda>executor_data.
                      LatticeWorkflowExecutorResponse (st_workflow_executor lattice_data)
                        executor_data)
               else if name = ''error'' then
                 returning (read_from_text e handler (error_filename lattice_data) s)
                   (\<lambda>response. LatticeFileResponse response)
               else if name = ''function'' then
                 returning (read_from_pickle e handler (function_filename lattice_data) s)
                   (\<lambda>response. LatticeFileResponse response)
               else if name = ''transport_graph'' then
                 returning (read_from_pickle e handler (transport_graph_filename lattice_data) s)
                   (\<lambda>response. LatticeFileResponse response)
               else (Inr (LatticeFileResponse PyNone), s))
       | None \<Rightarrow> (Inl (not_found did), s))"

section \<open>The dispatch table of the specification\<close>

text \<open>
  The table of section 4.4, written from the specification's words: for each recognized
  kind, the reader to call (\<open>readText\<close> is \<open>read_text\<close>, \<open>readObject\<close> is
  \<open>read_pickle\<close>) and the file-name field of the storage record to pass to it. The
  route above is compared with it.
\<close>

definition dispatch_table :: "string \<Rightarrow> (reader \<times> (storage_row \<Rightarrow> string)) option" where
  "dispatch_table kind =
     map_of
       [(''result'', (read_pickle, results_filename)),
        (''inputs'', (read_pickle, inputs_filename)),
        (''function_string'', (read_text, function_string_filename)),
        (''executor'', (read_pickle, executor_data_filename)),
        (''workflow_executor'', (read_pickle, workflow_executor_data_filename)),
        (''error'', (read_text, error_filename)),
        (''function'', (read_pickle, function_filename)),
        (''transport_graph'', (read_pickle, transport_graph_filename))] kind"

section \<open>The data store\<close>

text \<open>
  Modelled from the spec: \<^verbatim>\<open>covalent._data_store.datastore.DataStore\<close> and
  \<^verbatim>\<open>covalent._shared_files.config.get_config\<close> are not among the sources; only the
  unit test of the constructor is. The constructor is modelled from what that test
  states: without a URL, the attribute \<^verbatim>\<open>db_URL\<close> is the SQLite scheme followed by the
  configured \<^verbatim>\<open>dispatcher.db_path\<close>. That a given URL is kept as it is is the usual
  reading of an optional argument; nothing below depends on it. The configuration is a
  parameter: the value \<^verbatim>\<open>get_config\<close> returns for a key.
\<close>

record DataStore =
  db_URL :: string

definition DataStore_init :: "(string \<Rightarrow> string) \<Rightarrow> string option \<Rightarrow> DataStore" where
  "DataStore_init get_config url =
     \<lparr>db_URL = (case url of
                   Some u \<Rightarrow> u
                 | None \<Rightarrow> ''sqlite+pysqlite:///'' @ get_config ''dispatcher.db_path'')\<rparr>"

text \<open>\<^verbatim>\<open>test_datastore_init\<close>: the assertion of the unit test, as a truth value.\<close>

definition test_datastore_init :: "(string \<Rightarrow> string) \<Rightarrow> bool" where
  "test_datastore_init get_config =
     (let ds = DataStore_init get_config None
      in db_URL ds = ''sqlite+pysqlite:///'' @ get_config ''dispatcher.db_path'')"

section \<open>A fixture\<close>

text \<open>
  One run \<open>D1\<close> with a summary and a storage record, of whose files only the result and
  the two executor files are on disk, and an identifier \<open>D2\<close> unknown to both tables.
  The codec of the fixture knows two pickles.
\<close>

definition D1 :: uuid where "D1 = 0x123e4567e89b12d3a456426614174000"
definition D2 :: uuid where "D2 = 7"

definition fixture_row :: storage_row where
  "fixture_row =
     \<lparr>st_directory = ''/results/d1'',
      results_filename = ''result.pkl'',
      inputs_filename = ''inputs.pkl'',
      function_string_filename = ''function_string.txt'',
      st_executor = ''dask'',
      executor_data_filename = ''executor_data.pkl'',
      st_workflow_executor = ''local'',
      workflow_executor_data_filename = ''workflow_executor_data.pkl'',
      error_filename = ''error.log'',
      function_filename = ''function.pkl'',
      transport_graph_filename = ''transport_graph.pkl''\<rparr>"

definition fixture_summary :: lattice_row where
  "fixture_summary =
     \<lparr>dispatch_id = ''123e4567-e89b-12d3-a456-426614174000'',
      status = ''COMPLETED'',
      total_electrons = 5,
      total_electrons_completed = 5,
      start_time = 1000,
      end_time = Some 1060,
      directory = ''/results/d1'',
      runtime = 60\<rparr>"

definition fixture_unpickle :: "string \<Rightarrow> pyval option" where
  "fixture_unpickle raw =
     (if raw = ''five'' then Some (PyInt 5)
      else if raw = ''cfg'' then Some (PyObj ''{}'')
      else None)"

definition fixture_env :: env where
  "fixture_env =
     \<lparr>lattices = [D1 \<mapsto> fixture_summary],
      storage_files = [D1 \<mapsto> fixture_row],
      files = [''/results/d1/result.pkl'' \<mapsto> ''five'',
               ''/results/d1/executor_data.pkl'' \<mapsto> ''cfg'',
               ''/results/d1/workflow_executor_data.pkl'' \<mapsto> ''cfg''],
      unpickle = fixture_unpickle,
      decode_text = Some\<rparr>"

definition s0 :: state where
  "s0 = \<lparr>open_sessions = 0, reads = []\<rparr>"

section \<open>The session and the readers, step by step\<close>

lemma fst_with_Session:
  "fst (with_Session body s) = fst (body (s\<lparr>open_sessions := open_sessions s + 1\<rparr>))"
  by (simp add: with_Session_def split: prod.splits)

lemma reads_with_Session:
  "reads (snd (with_Session body s))
     = reads (snd (body (s\<lparr>open_sessions := open_sessions s + 1\<rparr>)))"
  by (simp add: with_Session_def split: prod.splits)

lemma sessions_with_Session:
  "open_sessions (snd (with_Session body s))
     = open_sessions (snd (body (s\<lparr>open_sessions := open_sessions s + 1\<rparr>))) - 1"
  by (simp add: with_Session_def split: prod.splits)

lemma reads_read_from:
  "reads (snd (read_from rd dec e h p s)) = reads s @ [(rd, location h, p)]"
  by (simp add: read_from_def Let_def split: option.splits)

lemma sessions_read_from:
  "open_sessions (snd (read_from rd dec e h p s)) = open_sessions s"
  by (simp add: read_from_def Let_def split: option.splits)

lemma fst_read_from_Some:
  "files e (location h @ ''/'' @ p) = Some raw \<Longrightarrow> dec raw = Some v
    \<Longrightarrow> fst (read_from rd dec e h p s) = Inr v"
  by (simp add: read_from_def file_path_def)

lemma fst_read_from_None:
  "files e (location h @ ''/'' @ p) = None
    \<Longrightarrow> fst (read_from rd dec e h p s) = Inl MissingFile"
  by (simp add: read_from_def file_path_def)

lemma fst_returning:
  "fst (returning r f) = (case fst r of Inl err \<Rightarrow> Inl err | Inr v \<Rightarrow> Inr (f v))"
  by (simp add: returning_def split: prod.splits sum.splits)

lemma snd_returning: "snd (returning r f) = snd r"
  by (simp add: returning_def split: prod.splits sum.splits)

text \<open>The rows of the table, and what lies outside it.\<close>

lemma dispatch_table_cases:
  assumes "dispatch_table kind = Some (rd, field)"
  shows "kind = ''result'' \<and> rd = read_pickle \<and> field = results_filename
    \<or> kind = ''inputs'' \<and> rd = read_pickle \<and> field = inputs_filename
    \<or> kind = ''function_string'' \<and> rd = read_text \<and> field = function_string_filename
    \<or> kind = ''executor'' \<and> rd = read_pickle \<and> field = executor_data_filename
    \<or> kind = ''workflow_executor'' \<and> rd = read_pickle
        \<and> field = workflow_executor_data_filename
    \<or> kind = ''error'' \<and> rd = read_text \<and> field = error_filename
    \<or> kind = ''function'' \<and> rd = read_pickle \<and> field = function_filename
    \<or> kind = ''transport_graph'' \<and> rd = read_pickle \<and> field = transport_graph_filename"
  using assms by (simp add: dispatch_table_def split: if_splits)

lemma dispatch_table_None:
  assumes "dispatch_table name = None"
  shows "name \<noteq> ''result'' \<and> name \<noteq> ''inputs'' \<and> name \<noteq> ''function_string''
    \<and> name \<noteq> ''executor'' \<and> name \<noteq> ''workflow_executor'' \<and> name \<noteq> ''error''
    \<and> name \<noteq> ''function'' \<and> name \<noteq> ''transport_graph''"
  using assms by (simp add: dispatch_table_def split: if_splits)

lemma dom_dispatch_table:
  "dom dispatch_table =
     {''result'', ''inputs'', ''function_string'', ''executor'', ''workflow_executor'',
      ''error'', ''function'', ''transport_graph''}"
  unfolding dispatch_table_def dom_map_of_conv_image_fst by simp

text \<open>The formatting of identifiers and of integers, on examples.\<close>

lemma uuid_str_D1: "uuid_str D1 = ''123e4567-e89b-12d3-a456-426614174000''"
  unfolding D1_def by code_simp

lemma uuid_str_D2: "uuid_str D2 = ''00000000-0000-0000-0000-000000000007''"
  unfolding D2_def by code_simp

lemma py_str_examples:
  "py_str (PyInt 5) = ''5''" "py_str (PyInt (- 1205)) = ''-1205''" "py_str (PyInt 0) = ''0''"
  by code_simp+

text \<open>
  The textual form determines the identifier: two identifiers with the same text are
  equal, so the message of the error names one identifier only.
\<close>

lemma hex_char_inj:
  assumes "m < 16" "n < 16" "hex_char m = hex_char n"
  shows "m = n"
proof -
  have d: "distinct ''0123456789abcdef''"
    by simp
  have l: "length ''0123456789abcdef'' = 16"
    by simp
  from assms have "''0123456789abcdef'' ! m = ''0123456789abcdef'' ! n"
    by (simp add: hex_char_def)
  with assms(1,2) show ?thesis
    using nth_eq_iff_index_eq [OF d, of m n] l by simp
qed

lemma nibble_less: "unat ((w :: uuid) AND 15) < 16"
proof -
  have "w AND 15 \<le> 15"
    by (rule word_and_le1)
  then have "unat (w AND 15) \<le> unat (15 :: uuid)"
    by (simp only: word_le_nat_alt)
  then show ?thesis by simp
qed

lemma length_hex32: "length (hex32 u) = 32"
  by (simp add: hex32_def)

lemma bit_nibble:
  assumes "j < 4" "4 * i + j < 128"
  shows "bit (drop_bit (4 * i) u AND (15 :: uuid)) j = bit u (4 * i + j)"
proof -
  have m: "(15 :: uuid) = mask 4"
    by (simp add: mask_eq_exp_minus_1)
  show ?thesis
    using assms by (simp add: m bit_and_iff bit_mask_iff bit_drop_bit_eq)
qed

lemma hex32_inj:
  assumes "hex32 u = hex32 v"
  shows "u = v"
proof (rule bit_word_eqI)
  fix n :: nat
  assume n: "n < LENGTH(128)"
  define i where "i = n div 4"
  define j where "j = n mod 4"
  have i: "i < 32" and j: "j < 4" and nij: "n = 4 * i + j"
    using n by (simp_all add: i_def j_def)
  have "\<forall>k \<in> set (rev [0..<32]).
      hex_char (unat (drop_bit (4 * k) u AND 15)) = hex_char (unat (drop_bit (4 * k) v AND 15))"
    using assms unfolding hex32_def by (simp only: map_eq_conv)
  with i have "hex_char (unat (drop_bit (4 * i) u AND 15))
      = hex_char (unat (drop_bit (4 * i) v AND 15))"
    by simp
  then have "unat (drop_bit (4 * i) u AND 15) = unat (drop_bit (4 * i) v AND 15)"
    by (rule hex_char_inj [OF nibble_less nibble_less])
  then have eq: "drop_bit (4 * i) u AND 15 = drop_bit (4 * i) v AND (15 :: uuid)"
    by (simp only: word_unat_eq_iff)
  have "bit u n = bit (drop_bit (4 * i) u AND 15) j"
    using bit_nibble [of j i u] j n nij by simp
  also have "\<dots> = bit (drop_bit (4 * i) v AND 15) j"
    by (simp only: eq)
  also have "\<dots> = bit v n"
    using bit_nibble [of j i v] j n nij by simp
  finally show "bit u n = bit v n" .
qed


lemma regroup_hex:
  fixes xs :: string
  shows "take 8 xs @ take 4 (drop 8 xs) @ take 4 (drop 12 xs) @ take 4 (drop 16 xs)
    @ drop 20 xs = xs"
proof -
  have a: "take 12 xs = take 8 xs @ take 4 (drop 8 xs)"
    using take_add [of 8 4 xs] by simp
  have b: "take 16 xs = take 12 xs @ take 4 (drop 12 xs)"
    using take_add [of 12 4 xs] by simp
  have c: "take 20 xs = take 16 xs @ take 4 (drop 16 xs)"
    using take_add [of 16 4 xs] by simp
  have "take 20 xs @ drop 20 xs = xs"
    by (rule append_take_drop_id)
  then show ?thesis
    by (simp add: a b c)
qed

lemma uuid_str_inj:
  assumes "uuid_str u = uuid_str v"
  shows "u = v"
proof -
  let ?a = "hex32 u" and ?b = "hex32 v"
  have l: "length ?a = 32" "length ?b = 32"
    by (simp_all add: length_hex32)
  from assms l have parts:
    "take 8 ?a = take 8 ?b \<and> take 4 (drop 8 ?a) = take 4 (drop 8 ?b)
     \<and> take 4 (drop 12 ?a) = take 4 (drop 12 ?b) \<and> take 4 (drop 16 ?a) = take 4 (drop 16 ?b)
     \<and> drop 20 ?a = drop 20 ?b"
    by (simp add: uuid_str_def Let_def)
  have "?a = take 8 ?a @ take 4 (drop 8 ?a) @ take 4 (drop 12 ?a) @ take 4 (drop 16 ?a)
      @ drop 20 ?a"
    by (simp only: regroup_hex)
  also have "\<dots> = take 8 ?b @ take 4 (drop 8 ?b) @ take 4 (drop 12 ?b)
      @ take 4 (drop 16 ?b) @ drop 20 ?b"
    using parts by simp
  also have "\<dots> = ?b"
    by (simp only: regroup_hex)
  finally show ?thesis
    by (rule hex32_inj)
qed

lemma not_found_inj:
  assumes "not_found d = not_found d'"
  shows "d = d'"
proof -
  from assms have "uuid_str d = uuid_str d'"
    by (simp add: not_found_def)
  then show ?thesis by (rule uuid_str_inj)
qed

section \<open>The claims\<close>

text \<open>
  Claim C1. On a found storage record and a kind of the table, \<open>get_lattice_files\<close> makes
  exactly one call to the file handler: the reader of the kind's row (\<open>read_text\<close> for
  \<open>function_string\<close> and \<open>error\<close>, \<open>read_pickle\<close> for the six others, see
  \<open>dispatch_table_cases\<close>), on the record's directory, with the file name of the row's
  field. No other file is read.
\<close>

theorem get_lattice_files_reads_table_row:
  assumes "storage_files e did = Some row" and "dispatch_table kind = Some (rd, field)"
  shows "reads (snd (get_lattice_files e did kind s))
    = reads s @ [(rd, st_directory row, field row)]"
  using dispatch_table_cases [OF assms(2)] assms(1)
  by (auto simp: get_lattice_files_def reads_with_Session snd_returning reads_read_from
      read_from_pickle_def read_from_text_def)

theorem get_lattice_files_reads_table_row_witness:
  "storage_files fixture_env D1 = Some fixture_row
   \<and> dispatch_table ''function_string'' = Some (read_text, function_string_filename)
   \<and> reads (snd (get_lattice_files fixture_env D1 ''function_string'' s0))
       = [(read_text, ''/results/d1'', ''function_string.txt'')]"
  using get_lattice_files_reads_table_row [of fixture_env D1 fixture_row
      "''function_string''" read_text function_string_filename s0]
  by (simp add: fixture_env_def dispatch_table_def fixture_row_def s0_def)

text \<open>
  Claim C2. On a found storage record and a kind outside the table,
  \<open>get_lattice_files\<close> returns the response whose data is \<open>None\<close>, and no error.
\<close>

theorem get_lattice_files_unrecognized_kind:
  assumes "storage_files e did = Some row" and "dispatch_table name = None"
  shows "fst (get_lattice_files e did name s) = Inr (LatticeFileResponse PyNone)"
  using dispatch_table_None [OF assms(2)] assms(1)
  by (simp add: get_lattice_files_def fst_with_Session)

theorem get_lattice_files_unrecognized_kind_witness:
  "storage_files fixture_env D1 = Some fixture_row \<and> dispatch_table ''bogus'' = None
   \<and> fst (get_lattice_files fixture_env D1 ''bogus'' s0) = Inr (LatticeFileResponse PyNone)"
  using get_lattice_files_unrecognized_kind [of fixture_env D1 fixture_row "''bogus''" s0]
  by (simp add: fixture_env_def dispatch_table_def)

text \<open>
  Claim C3. For a dispatch identifier that the table queried does not hold, both routes
  raise the HTTP exception of status 400 (a client error) whose single detail has the
  location \<open>path, dispatch_id\<close>, the message \<open>Dispatch ID <id> does not exist\<close> with the
  requested identifier in its textual form, and no type. By \<open>not_found_inj\<close> the error
  of one identifier is the error of no other.
\<close>

theorem unknown_dispatch_id_not_found:
  "(lattices e did = None \<longrightarrow>
      fst (get_lattice_details e did s)
        = Inl (HTTPException 400
            [\<lparr>loc = [''path'', ''dispatch_id''],
              msg = ''Dispatch ID '' @ uuid_str did @ '' does not exist'',
              type_key = None\<rparr>]))
   \<and> (storage_files e did = None \<longrightarrow>
      fst (get_lattice_files e did name s)
        = Inl (HTTPException 400
            [\<lparr>loc = [''path'', ''dispatch_id''],
              msg = ''Dispatch ID '' @ uuid_str did @ '' does not exist'',
              type_key = None\<rparr>]))
   \<and> (400::nat) \<le> status_code (not_found did) \<and> status_code (not_found did) < 500"
  by (simp add: get_lattice_details_def get_lattice_files_def fst_with_Session not_found_def)

theorem unknown_dispatch_id_not_found_witness:
  "lattices fixture_env D2 = None \<and> storage_files fixture_env D2 = None
   \<and> fst (get_lattice_details fixture_env D2 s0)
        = Inl (HTTPException 400
            [\<lparr>loc = [''path'', ''dispatch_id''],
              msg = ''Dispatch ID 00000000-0000-0000-0000-000000000007 does not exist'',
              type_key = None\<rparr>])
   \<and> fst (get_lattice_files fixture_env D2 ''inputs'' s0)
        = Inl (HTTPException 400
            [\<lparr>loc = [''path'', ''dispatch_id''],
              msg = ''Dispatch ID 00000000-0000-0000-0000-000000000007 does not exist'',
              type_key = None\<rparr>])"
proof -
  have a: "lattices fixture_env D2 = None" and b: "storage_files fixture_env D2 = None"
    by (simp_all add: fixture_env_def D1_def D2_def)
  show ?thesis
    using unknown_dispatch_id_not_found [of fixture_env D2 s0 "''inputs''"] a b uuid_str_D2
    by simp
qed

text \<open>
  Claim C4. For a dispatch identifier with a summary row, \<open>get_lattice_details\<close> returns
  a payload each of whose eight fields is the corresponding column of the row
  (\<open>started_at\<close> and \<open>ended_at\<close> are the columns \<open>start_time\<close> and \<open>end_time\<close>).
\<close>

theorem get_lattice_details_fields:
  assumes "lattices e did = Some d"
  shows "\<exists>p. fst (get_lattice_details e did s) = Inr p
    \<and> r_dispatch_id p = dispatch_id d
    \<and> r_status p = status d
    \<and> r_total_electrons p = total_electrons d
    \<and> r_total_electrons_completed p = total_electrons_completed d
    \<and> r_started_at p = start_time d
    \<and> r_ended_at p = end_time d
    \<and> r_directory p = directory d
    \<and> r_runtime p = runtime d"
  using assms by (simp add: get_lattice_details_def fst_with_Session)

theorem get_lattice_details_fields_witness:
  "lattices fixture_env D1 = Some fixture_summary
   \<and> fst (get_lattice_details fixture_env D1 s0)
       = Inr \<lparr>r_dispatch_id = ''123e4567-e89b-12d3-a456-426614174000'',
               r_status = ''COMPLETED'',
               r_total_electrons = 5,
               r_total_electrons_completed = 5,
               r_started_at = 1000,
               r_ended_at = Some 1060,
               r_directory = ''/results/d1'',
               r_runtime = 60\<rparr>"
proof -
  have a: "lattices fixture_env D1 = Some fixture_summary"
    by (simp add: fixture_env_def)
  from get_lattice_details_fields [OF a, of s0] obtain p where
    "fst (get_lattice_details fixture_env D1 s0) = Inr p"
    "r_dispatch_id p = dispatch_id fixture_summary"
    "r_status p = status fixture_summary"
    "r_total_electrons p = total_electrons fixture_summary"
    "r_total_electrons_completed p = total_electrons_completed fixture_summary"
    "r_started_at p = start_time fixture_summary"
    "r_ended_at p = end_time fixture_summary"
    "r_directory p = directory fixture_summary"
    "r_runtime p = runtime fixture_summary"
    by blast
  then show ?thesis
    using a by (cases p) (simp add: fixture_summary_def)
qed

text \<open>
  Claim C5, as amended. On a found storage record and the kind \<open>result\<close>, when the
  results file is on disk and decodes to \<open>v\<close>, \<open>get_lattice_files\<close> returns the response
  whose data is the string \<open>str v\<close>, not \<open>v\<close> itself: the route converts the decoded
  result with \<^verbatim>\<open>str\<close> before it builds the response, which it does for no other kind.
\<close>

theorem get_lattice_files_result_str:
  assumes "storage_files e did = Some row"
    and "files e (st_directory row @ ''/'' @ results_filename row) = Some raw"
    and "unpickle e raw = Some v"
  shows "fst (get_lattice_files e did ''result'' s)
    = Inr (LatticeFileResponse (PyStr (py_str v)))"
  using assms
  by (simp add: get_lattice_files_def fst_with_Session fst_returning read_from_pickle_def
      fst_read_from_Some)

theorem get_lattice_files_result_str_witness:
  "storage_files fixture_env D1 = Some fixture_row
   \<and> files fixture_env (st_directory fixture_row @ ''/'' @ results_filename fixture_row)
       = Some ''five''
   \<and> unpickle fixture_env ''five'' = Some (PyInt 5)
   \<and> fst (get_lattice_files fixture_env D1 ''result'' s0)
       = Inr (LatticeFileResponse (PyStr ''5''))"
proof -
  have a: "storage_files fixture_env D1 = Some fixture_row"
    by (simp add: fixture_env_def)
  have b: "files fixture_env (st_directory fixture_row @ ''/'' @ results_filename fixture_row)
      = Some ''five''"
    by (simp add: fixture_env_def fixture_row_def)
  have c: "unpickle fixture_env ''five'' = Some (PyInt 5)"
    by (simp add: fixture_env_def fixture_unpickle_def)
  show ?thesis
    using get_lattice_files_result_str [OF a b c, of s0] a b c py_str_examples(1) by simp
qed

text \<open>
  The claim as it was stated fails on the fixture: the results file of \<open>D1\<close> decodes to
  the integer 5, and the data of the response is not that integer.
\<close>

theorem get_lattice_files_result_not_decoded_value:
  "storage_files fixture_env D1 = Some fixture_row
   \<and> files fixture_env (st_directory fixture_row @ ''/'' @ results_filename fixture_row)
       = Some ''five''
   \<and> unpickle fixture_env ''five'' = Some (PyInt 5)
   \<and> fst (get_lattice_files fixture_env D1 ''result'' s0)
       \<noteq> Inr (LatticeFileResponse (PyInt 5))"
  by (simp add: get_lattice_files_def fst_with_Session fst_returning read_from_pickle_def
      read_from_def file_path_def fixture_env_def fixture_row_def fixture_unpickle_def)

text \<open>
  Claim C6. On a found storage record, the kind \<open>executor\<close> gives the executor response
  with the record's executor name and the object decoded from the executor data file,
  and the kind \<open>workflow_executor\<close> gives the workflow executor response with the
  record's workflow executor name and the object decoded from the workflow executor
  data file.
\<close>

theorem get_lattice_files_executor:
  assumes "storage_files e did = Some row"
  shows "(files e (st_directory row @ ''/'' @ executor_data_filename row) = Some raw
        \<and> unpickle e raw = Some v
      \<longrightarrow> fst (get_lattice_files e did ''executor'' s)
            = Inr (LatticeExecutorResponse (st_executor row) v))
    \<and> (files e (st_directory row @ ''/'' @ workflow_executor_data_filename row) = Some raw'
        \<and> unpickle e raw' = Some v'
      \<longrightarrow> fst (get_lattice_files e did ''workflow_executor'' s)
            = Inr (LatticeWorkflowExecutorResponse (st_workflow_executor row) v'))"
  using assms
  by (simp add: get_lattice_files_def fst_with_Session fst_returning read_from_pickle_def
      fst_read_from_Some)

theorem get_lattice_files_executor_witness:
  "storage_files fixture_env D1 = Some fixture_row
   \<and> files fixture_env (st_directory fixture_row @ ''/'' @ executor_data_filename fixture_row)
       = Some ''cfg''
   \<and> files fixture_env
        (st_directory fixture_row @ ''/'' @ workflow_executor_data_filename fixture_row)
       = Some ''cfg''
   \<and> unpickle fixture_env ''cfg'' = Some (PyObj ''{}'')
   \<and> fst (get_lattice_files fixture_env D1 ''executor'' s0)
       = Inr (LatticeExecutorResponse ''dask'' (PyObj ''{}''))
   \<and> fst (get_lattice_files fixture_env D1 ''workflow_executor'' s0)
       = Inr (LatticeWorkflowExecutorResponse ''local'' (PyObj ''{}''))"
proof -
  have a: "storage_files fixture_env D1 = Some fixture_row"
    by (simp add: fixture_env_def)
  have b: "files fixture_env
      (st_directory fixture_row @ ''/'' @ executor_data_filename fixture_row) = Some ''cfg''"
    by (simp add: fixture_env_def fixture_row_def)
  have b': "files fixture_env
      (st_directory fixture_row @ ''/'' @ workflow_executor_data_filename fixture_row)
      = Some ''cfg''"
    by (simp add: fixture_env_def fixture_row_def)
  have c: "unpickle fixture_env ''cfg'' = Some (PyObj ''{}'')"
    by (simp add: fixture_env_def fixture_unpickle_def)
  have n: "st_executor fixture_row = ''dask''" "st_workflow_executor fixture_row = ''local''"
    by (simp_all add: fixture_row_def)
  show ?thesis
    using get_lattice_files_executor [OF a, of "''cfg''" "PyObj ''{}''" s0 "''cfg''"
        "PyObj ''{}''"] a b b' c n
    by simp
qed

text \<open>
  Claim C7. On a found storage record and a kind of the table whose file is not on disk,
  \<open>get_lattice_files\<close> fails with \<open>MissingFile\<close>, which is not the error of an unknown
  dispatch identifier nor any other HTTP exception.
\<close>

theorem get_lattice_files_missing_file:
  assumes "storage_files e did = Some row"
    and "dispatch_table kind = Some (rd, field)"
    and "files e (st_directory row @ ''/'' @ field row) = None"
  shows "fst (get_lattice_files e did kind s) = Inl MissingFile
    \<and> fst (get_lattice_files e did kind s) \<noteq> Inl (not_found did')
    \<and> fst (get_lattice_files e did kind s) \<noteq> Inl (HTTPException code details)"
  using dispatch_table_cases [OF assms(2)] assms(1,3)
  by (auto simp: get_lattice_files_def fst_with_Session fst_returning read_from_pickle_def
      read_from_text_def fst_read_from_None not_found_def)

theorem get_lattice_files_missing_file_witness:
  "storage_files fixture_env D1 = Some fixture_row
   \<and> dispatch_table ''inputs'' = Some (read_pickle, inputs_filename)
   \<and> files fixture_env (st_directory fixture_row @ ''/'' @ inputs_filename fixture_row) = None
   \<and> fst (get_lattice_files fixture_env D1 ''inputs'' s0) = Inl MissingFile
   \<and> fst (get_lattice_files fixture_env D1 ''inputs'' s0) \<noteq> Inl (not_found D1)"
proof -
  have a: "storage_files fixture_env D1 = Some fixture_row"
    by (simp add: fixture_env_def)
  have b: "dispatch_table ''inputs'' = Some (read_pickle, inputs_filename)"
    by (simp add: dispatch_table_def)
  have c: "files fixture_env (st_directory fixture_row @ ''/'' @ inputs_filename fixture_row)
      = None"
    by (simp add: fixture_env_def fixture_row_def)
  show ?thesis
    using get_lattice_files_missing_file [OF a b c, of s0 D1] a b c
    by (simp add: not_found_def)
qed

text \<open>
  Claim C8. Both routes leave as many sessions open as they found: the session opened at
  the start of the request is closed when the request ends, whether it returns a
  response, raises the error of an unknown dispatch identifier, or fails in a reader.
\<close>

theorem session_released:
  "open_sessions (snd (get_lattice_details e did s)) = open_sessions s
   \<and> open_sessions (snd (get_lattice_files e did name s)) = open_sessions s"
  by (simp add: get_lattice_details_def get_lattice_files_def sessions_with_Session
      snd_returning sessions_read_from read_from_pickle_def read_from_text_def Let_def
      split: option.splits)

text \<open>
  Claim C9. On a found storage record and a kind outside the table, \<open>get_lattice_files\<close>
  calls no reader, and on a disk without files it returns the response whose data is
  \<open>None\<close>, leaving the state as it found it.
\<close>

theorem get_lattice_files_unrecognized_no_read:
  assumes "storage_files e did = Some row" and "dispatch_table name = None"
  shows "reads (snd (get_lattice_files e did name s)) = reads s
    \<and> get_lattice_files (e\<lparr>files := Map.empty\<rparr>) did name s
        = (Inr (LatticeFileResponse PyNone), s)"
  using dispatch_table_None [OF assms(2)] assms(1)
  by (simp add: get_lattice_files_def reads_with_Session with_Session_def)

theorem get_lattice_files_unrecognized_no_read_witness:
  "storage_files fixture_env D1 = Some fixture_row \<and> dispatch_table ''bogus'' = None
   \<and> reads (snd (get_lattice_files fixture_env D1 ''bogus'' s0)) = []
   \<and> get_lattice_files (fixture_env\<lparr>files := Map.empty\<rparr>) D1 ''bogus'' s0
       = (Inr (LatticeFileResponse PyNone), s0)"
proof -
  have a: "storage_files fixture_env D1 = Some fixture_row"
    by (simp add: fixture_env_def)
  have b: "dispatch_table ''bogus'' = None"
    by (simp add: dispatch_table_def)
  show ?thesis
    using get_lattice_files_unrecognized_no_read [OF a b, of s0] a b by (simp add: s0_def)
qed

text \<open>
  Claim C10. A data store constructed without a URL has as \<open>db_URL\<close> the string
  \<open>sqlite+pysqlite:///\<close> followed by the configured \<open>dispatcher.db_path\<close>; the unit test
  of the constructor passes for every configuration.
\<close>

theorem datastore_default_url:
  "db_URL (DataStore_init get_config None)
     = ''sqlite+pysqlite:///'' @ get_config ''dispatcher.db_path''
   \<and> test_datastore_init get_config"
  by (simp add: DataStore_init_def test_datastore_init_def)

end
